theory Spec2Isabelle
  imports Complex_Main "HOL-Library.Word"
begin

section \<open>Blog-to-podcast: the audio generator agent\<close>

text \<open>
  A shallow embedding of \<^verbatim>\<open>blog_to_podcast/agents/audio_generator.py\<close>.

  The agent talks to four things outside the repository: the Murf text-to-speech SDK, the
  \<^verbatim>\<open>requests\<close> HTTP client, the file system, and the audio libraries (pydub over
  audioop and ffmpeg, numpy, pyloudnorm). Calls that reach the outside world are recorded in
  an event log that every effectful function takes and returns; what the outside world
  answers is an \<open>env\<close> record of oracles, each of which may depend on the events so far.
  Python floats are modelled as exact reals.
\<close>

subsection \<open>Python values and the synthesis response\<close>

type_synonym bytes = "8 word list"

datatype pyval =
    PNone
  | PBool bool
  | PInt int
  | PStr string
  | PBytes bytes
  | PObj

text \<open>Python truth value testing, as used by \<^verbatim>\<open>if encoded_val:\<close> and \<^verbatim>\<open>a or b\<close>.\<close>

fun truthy :: "pyval \<Rightarrow> bool" where
  "truthy PNone = False"
| "truthy (PBool b) = b"
| "truthy (PInt i) = (i \<noteq> 0)"
| "truthy (PStr s) = (s \<noteq> [])"
| "truthy (PBytes b) = (b \<noteq> [])"
| "truthy PObj = True"

definition py_or :: "pyval \<Rightarrow> pyval \<Rightarrow> pyval" where
  "py_or a b = (if truthy a then a else b)"

text \<open>
  An SDK object: \<open>to_dict\<close> is \<open>None\<close> when the object has no callable \<^verbatim>\<open>to_dict\<close>,
  \<open>Some None\<close> when calling it raises, and \<open>Some (Some m)\<close> when it returns \<open>m\<close>;
  \<open>vars_dict\<close> is the object's \<^verbatim>\<open>__dict__\<close> when it has one; \<open>attrs\<close> is what
  \<^verbatim>\<open>getattr\<close> finds.
\<close>

record sdk_object =
  to_dict :: "(string \<rightharpoonup> pyval) option option"
  vars_dict :: "(string \<rightharpoonup> pyval) option"
  attrs :: "string \<rightharpoonup> pyval"

datatype response =
    RNone
  | RDict "string \<rightharpoonup> pyval"
  | RBytes bytes
  | RObject sdk_object

definition public_items :: "(string \<rightharpoonup> pyval) \<Rightarrow> (string \<rightharpoonup> pyval)" where
  "public_items d = (\<lambda>k. if take 1 k = ''_'' then None else d k)"

fun resp_to_mapping :: "response \<Rightarrow> (string \<rightharpoonup> pyval)" where
  "resp_to_mapping RNone = Map.empty"
| "resp_to_mapping (RDict m) = m"
| "resp_to_mapping (RObject obj) =
     (case to_dict obj of
        Some (Some m) \<Rightarrow> m
      | _ \<Rightarrow> (case vars_dict obj of
                 Some d \<Rightarrow> public_items d
               | None \<Rightarrow> Map.empty))"
| "resp_to_mapping (RBytes b) = Map.empty"

text \<open>\<^verbatim>\<open>resp_map.get(key)\<close> and \<^verbatim>\<open>getattr(response, key, None)\<close>.\<close>

definition map_get :: "(string \<rightharpoonup> pyval) \<Rightarrow> string \<Rightarrow> pyval" where
  "map_get m k = (case m k of Some v \<Rightarrow> v | None \<Rightarrow> PNone)"

fun getattr :: "response \<Rightarrow> string \<Rightarrow> pyval" where
  "getattr (RObject obj) k = map_get (attrs obj) k"
| "getattr _ k = PNone"

definition field_value :: "response \<Rightarrow> string \<Rightarrow> pyval" where
  "field_value response key = py_or (map_get (resp_to_mapping response) key) (getattr response key)"

subsection \<open>Errors\<close>

text \<open>
  The spec's error taxonomy, with the Python exception each one is in the source:
  \<^item> \<open>EmptyInputError\<close>: \<^verbatim>\<open>ValueError("podcast_script is required to create audio.")\<close>
  \<^item> \<open>PayloadDecodeError\<close>: \<^verbatim>\<open>ValueError("Failed to decode base64 audio from Murf response: ...")\<close>
  \<^item> \<open>DownloadError\<close>: \<^verbatim>\<open>ValueError("Failed to download Murf audio from URL ...")\<close>
  \<^item> \<open>NoAudioPayloadError\<close>: \<^verbatim>\<open>ValueError("Murf returned no audio payload (checked several fields).")\<close>
  \<^item> \<open>DecodeError\<close>: \<^verbatim>\<open>RuntimeError("Failed to parse audio bytes into AudioSegment: ...")\<close>
  \<^item> \<open>MissingAssetError\<close>: \<^verbatim>\<open>FileNotFoundError("Required audio asset missing: ...")\<close>
  \<^item> \<open>LibraryError\<close>: an exception of a library call that the agent lets through unchanged.
\<close>

datatype library_exception =
    TtsSdkError
  | ChannelConversionError
  | ReshapeError
  | LoudnessError
  | AssetDecodeError
  | ExportError

datatype error =
    EmptyInputError
  | PayloadDecodeError
  | DownloadError
  | NoAudioPayloadError
  | DecodeError
  | MissingAssetError
  | LibraryError library_exception

subsection \<open>Audio segments (pydub)\<close>

text \<open>
  A pydub \<^verbatim>\<open>AudioSegment\<close>: the interleaved samples as integers, and the three format
  attributes. \<open>sample_width\<close> is in bytes.
\<close>

record segment =
  samples :: "int list"
  frame_rate :: nat
  channels :: nat
  sample_width :: nat

subsection \<open>The agent, the outside world and its events\<close>

record agent =
  output_path :: string
  intro_path :: string
  outro_path :: string
  target_lufs :: real
  speech_delta_db :: real
  music_delta_db :: real
  voice_id :: string
  murf_model :: string
  http_timeout :: nat

record tts_request =
  req_text :: string
  req_voice_id :: string
  req_format :: string
  req_sample_rate :: nat
  req_model_version :: string
  req_encode_as_base_64 :: bool

datatype event =
    TtsRequest tts_request
  | HttpGet pyval nat
  | PathExists string
  | ReadFile string
  | Export string segment
  | Sleep nat

text \<open>
  The oracles. \<open>None\<close> is an exception of the call. \<open>b64decode\<close> is
  \<^verbatim>\<open>base64.b64decode\<close>; \<open>decode_mp3\<close> is \<^verbatim>\<open>AudioSegment.from_file(BytesIO(b), format="mp3")\<close>;
  \<open>http_get\<close> is \<^verbatim>\<open>requests.get\<close> followed by \<^verbatim>\<open>raise_for_status\<close> and \<^verbatim>\<open>.content\<close>;
  \<open>ratecv\<close> is \<^verbatim>\<open>audioop.ratecv\<close> (sample width, channels, input rate, output rate);
  \<open>downmix\<close> is the folding of several channels to one in \<^verbatim>\<open>set_channels\<close>;
  \<open>fade_in\<close> and \<open>fade_out\<close> are pydub's fades; \<open>integrated_loudness\<close> is
  \<^verbatim>\<open>pyln.Meter(rate).integrated_loudness(array)\<close>.
\<close>

record env =
  tts_generate :: "event list \<Rightarrow> tts_request \<Rightarrow> response option"
  http_get :: "event list \<Rightarrow> pyval \<Rightarrow> nat \<Rightarrow> bytes option"
  b64decode :: "pyval \<Rightarrow> bytes option"
  decode_mp3 :: "bytes \<Rightarrow> segment option"
  path_exists :: "event list \<Rightarrow> string \<Rightarrow> bool"
  read_audio_file :: "event list \<Rightarrow> string \<Rightarrow> segment option"
  export_mp3 :: "event list \<Rightarrow> string \<Rightarrow> segment \<Rightarrow> bool"
  ratecv :: "nat \<Rightarrow> nat \<Rightarrow> nat \<Rightarrow> nat \<Rightarrow> int list \<Rightarrow> int list"
  downmix :: "nat \<Rightarrow> nat \<Rightarrow> int list \<Rightarrow> int list"
  fade_in :: "nat \<Rightarrow> segment \<Rightarrow> segment"
  fade_out :: "nat \<Rightarrow> segment \<Rightarrow> segment"
  integrated_loudness :: "nat \<Rightarrow> real list \<Rightarrow> real option"

subsection \<open>pydub operations used by the agent\<close>

text \<open>
  pydub's format setters return the segment itself when the attribute already has the
  requested value, and otherwise a new segment with converted samples and the attribute
  overridden. \<open>lin2lin\<close> is \<^verbatim>\<open>audioop.lin2lin\<close> (a shift by whole bytes), \<open>upmix\<close> is
  \<^verbatim>\<open>audioop.tostereo\<close> with both factors 1, respectively
  \<^verbatim>\<open>from_mono_audiosegments\<close> of \<open>n\<close> copies.
\<close>

definition lin2lin :: "nat \<Rightarrow> nat \<Rightarrow> int list \<Rightarrow> int list" where
  "lin2lin w w' xs =
     (if w \<le> w' then map (\<lambda>x. x * 2 ^ (8 * (w' - w))) xs
      else map (\<lambda>x. x div 2 ^ (8 * (w - w'))) xs)"

definition upmix :: "nat \<Rightarrow> int list \<Rightarrow> int list" where
  "upmix n xs = concat (map (replicate n) xs)"

definition set_frame_rate :: "env \<Rightarrow> nat \<Rightarrow> segment \<Rightarrow> segment" where
  "set_frame_rate env r seg =
     (if r = frame_rate seg then seg
      else seg\<lparr>samples :=
                 (if samples seg \<noteq> []
                  then ratecv env (sample_width seg) (channels seg) (frame_rate seg) r (samples seg)
                  else samples seg),
               frame_rate := r\<rparr>)"

definition set_sample_width :: "nat \<Rightarrow> segment \<Rightarrow> segment" where
  "set_sample_width w seg =
     (if w = sample_width seg then seg
      else seg\<lparr>samples := lin2lin (sample_width seg) w (samples seg), sample_width := w\<rparr>)"

definition set_channels :: "env \<Rightarrow> nat \<Rightarrow> segment \<Rightarrow> error + segment" where
  "set_channels env n seg =
     (if n = channels seg then Inr seg
      else if n = 2 \<and> channels seg = 1 then
        Inr (seg\<lparr>samples := upmix 2 (samples seg), channels := n\<rparr>)
      else if n = 1 \<and> channels seg = 2 then
        Inr (seg\<lparr>samples := downmix env 2 (sample_width seg) (samples seg), channels := n\<rparr>)
      else if n = 1 then
        Inr (seg\<lparr>samples := downmix env (channels seg) (sample_width seg) (samples seg),
                 channels := n\<rparr>)
      else if channels seg = 1 then
        Inr (seg\<lparr>samples := upmix n (samples seg), channels := n\<rparr>)
      else Inl (LibraryError ChannelConversionError))"

subsection \<open>Standardization\<close>

definition standardize_segment :: "env \<Rightarrow> segment \<Rightarrow> error + segment" where
  "standardize_segment env seg =
     set_channels env 2 (set_sample_width 2 (set_frame_rate env 44100 seg))"

definition is_standard :: "segment \<Rightarrow> bool" where
  "is_standard seg = (frame_rate seg = 44100 \<and> channels seg = 2 \<and> sample_width seg = 2)"

text \<open>Running one fallible step after another: the first exception ends the chain.\<close>

definition bind_err :: "error + 'a \<Rightarrow> ('a \<Rightarrow> error + 'b) \<Rightarrow> error + 'b" where
  "bind_err r f = (case r of Inl e \<Rightarrow> Inl e | Inr x \<Rightarrow> f x)"

subsection \<open>Speech synthesis: extracting the audio payload\<close>

definition encoded_keys :: "string list" where
  "encoded_keys = [''encoded_audio'', ''encodedAudio'', ''encodedAudioBase64'', ''encodedAudio64'']"

definition url_keys :: "string list" where
  "url_keys = [''audio_file'', ''audioFile'', ''url'', ''audio_url'', ''signedUrl'']"

text \<open>
  The first loop of \<^verbatim>\<open>_synthesize\<close>: the first key with a truthy value is decoded; a
  decoding failure raises, success leaves the loop. \<open>Inr None\<close> is the loop ending with
  \<^verbatim>\<open>audio_bytes\<close> still \<^verbatim>\<open>None\<close>.
\<close>

fun find_encoded :: "env \<Rightarrow> response \<Rightarrow> string list \<Rightarrow> error + bytes option" where
  "find_encoded env response [] = Inr None"
| "find_encoded env response (encoded_key # keys) =
     (let encoded_val = field_value response encoded_key in
      if truthy encoded_val then
        (case b64decode env encoded_val of
           None \<Rightarrow> Inl PayloadDecodeError
         | Some audio_bytes \<Rightarrow> Inr (Some audio_bytes))
      else find_encoded env response keys)"

text \<open>The second loop: the first key with a truthy value is downloaded.\<close>

fun find_url ::
  "env \<Rightarrow> agent \<Rightarrow> response \<Rightarrow> string list \<Rightarrow> event list \<Rightarrow> (error + bytes option) \<times> event list"
where
  "find_url env self response [] evs = (Inr None, evs)"
| "find_url env self response (url_key # keys) evs =
     (let url_val = field_value response url_key in
      if truthy url_val then
        (case http_get env evs url_val (http_timeout self) of
           None \<Rightarrow> (Inl DownloadError, evs @ [HttpGet url_val (http_timeout self)])
         | Some content \<Rightarrow> (Inr (Some content), evs @ [HttpGet url_val (http_timeout self)]))
      else find_url env self response keys evs)"

fun raw_bytes :: "response \<Rightarrow> bytes option" where
  "raw_bytes (RBytes b) = Some b"
| "raw_bytes _ = None"

text \<open>
  Lines 103 to 153: the three sources in order, then the check \<^verbatim>\<open>if not audio_bytes\<close>,
  which rejects both \<^verbatim>\<open>None\<close> and the empty byte string.
\<close>

definition extract_audio_bytes ::
  "env \<Rightarrow> agent \<Rightarrow> response \<Rightarrow> event list \<Rightarrow> (error + bytes) \<times> event list"
where
  "extract_audio_bytes env self response evs =
     (case find_encoded env response encoded_keys of
        Inl e \<Rightarrow> (Inl e, evs)
      | Inr inline \<Rightarrow>
          (case (if inline = None then find_url env self response url_keys evs
                 else (Inr inline, evs)) of
             (Inl e, evs') \<Rightarrow> (Inl e, evs')
           | (Inr fetched, evs') \<Rightarrow>
               (let audio_bytes = (if fetched = None then raw_bytes response else fetched) in
                case audio_bytes of
                  None \<Rightarrow> (Inl NoAudioPayloadError, evs')
                | Some b \<Rightarrow> if b = [] then (Inl NoAudioPayloadError, evs') else (Inr b, evs'))))"

definition tts_request_of :: "agent \<Rightarrow> string \<Rightarrow> tts_request" where
  "tts_request_of self script =
     \<lparr>req_text = script, req_voice_id = voice_id self, req_format = ''MP3'',
      req_sample_rate = 44100, req_model_version = murf_model self,
      req_encode_as_base_64 = True\<rparr>"

definition synthesize ::
  "env \<Rightarrow> agent \<Rightarrow> string \<Rightarrow> event list \<Rightarrow> (error + segment) \<times> event list"
where
  "synthesize env self script evs =
     (let request = tts_request_of self script; evs1 = evs @ [TtsRequest request] in
      case tts_generate env evs request of
        None \<Rightarrow> (Inl (LibraryError TtsSdkError), evs1)
      | Some response \<Rightarrow>
          (case extract_audio_bytes env self response evs1 of
             (Inl e, evs2) \<Rightarrow> (Inl e, evs2)
           | (Inr audio_bytes, evs2) \<Rightarrow>
               (case decode_mp3 env audio_bytes of
                  None \<Rightarrow> (Inl DecodeError, evs2)
                | Some speech_segment \<Rightarrow> (standardize_segment env speech_segment, evs2))))"

subsection \<open>Loudness measurement and normalization\<close>

text \<open>
  \<^verbatim>\<open>array.reshape((-1, channels))\<close>: the rows of \<open>n\<close> consecutive samples. numpy raises
  when the length is not a multiple of \<open>n\<close>; the caller checks that.
\<close>

function reshape_rows :: "nat \<Rightarrow> 'a list \<Rightarrow> 'a list list" where
  "reshape_rows n xs = (if n = 0 \<or> xs = [] then [] else take n xs # reshape_rows n (drop n xs))"
  by pat_completeness auto
termination
  by (relation "measure (\<lambda>(n, xs). length xs)") auto

declare reshape_rows.simps [simp del]

definition max_int16 :: real where
  "max_int16 = 32767"

definition segment_to_float_array :: "segment \<Rightarrow> error + real list" where
  "segment_to_float_array segment =
     (let array = map real_of_int (samples segment) in
      if channels segment > 1 then
        (if length array mod channels segment \<noteq> 0 then Inl (LibraryError ReshapeError)
         else
           (let mono = map (\<lambda>row. sum_list row / real (channels segment))
                           (reshape_rows (channels segment) array) in
            if max_int16 = 0 then Inr mono else Inr (map (\<lambda>x. x / max_int16) mono)))
      else if max_int16 = 0 then Inr array
      else Inr (map (\<lambda>x. x / max_int16) array))"

definition np_any :: "real list \<Rightarrow> bool" where
  "np_any array = list_ex (\<lambda>x. x \<noteq> 0) array"

text \<open>
  \<^verbatim>\<open>apply_gain\<close> is \<^verbatim>\<open>audioop.mul\<close> by \<^verbatim>\<open>db_to_float(gain)\<close>: every sample is
  multiplied by the factor, clipped to the range of the sample width and rounded down.
\<close>

definition maxval :: "nat \<Rightarrow> int" where
  "maxval w = 2 ^ (8 * w - 1) - 1"

definition minval :: "nat \<Rightarrow> int" where
  "minval w = - (2 ^ (8 * w - 1))"

definition fbound :: "real \<Rightarrow> int \<Rightarrow> int \<Rightarrow> int" where
  "fbound val lo hi =
     \<lfloor>if val > real_of_int hi then real_of_int hi
      else if val < real_of_int lo + 1 then real_of_int lo
      else val\<rfloor>"

definition audioop_mul :: "nat \<Rightarrow> real \<Rightarrow> int list \<Rightarrow> int list" where
  "audioop_mul w factor xs = map (\<lambda>x. fbound (real_of_int x * factor) (minval w) (maxval w)) xs"

definition db_to_float :: "real \<Rightarrow> real" where
  "db_to_float db = 10 powr (db / 20)"

definition apply_gain :: "segment \<Rightarrow> real \<Rightarrow> segment" where
  "apply_gain seg volume_change =
     seg\<lparr>samples := audioop_mul (sample_width seg) (db_to_float volume_change) (samples seg)\<rparr>"

definition normalize_lufs :: "env \<Rightarrow> segment \<Rightarrow> real \<Rightarrow> error + segment" where
  "normalize_lufs env segment target =
     (case segment_to_float_array segment of
        Inl e \<Rightarrow> Inl e
      | Inr array \<Rightarrow>
          if \<not> np_any array then Inr segment
          else
            (case integrated_loudness env (frame_rate segment) array of
               None \<Rightarrow> Inl (LibraryError LoudnessError)
             | Some loudness \<Rightarrow> Inr (apply_gain segment (target - loudness))))"

subsection \<open>Peak level\<close>

text \<open>
  pydub's \<^verbatim>\<open>max_dBFS\<close> is \<^verbatim>\<open>ratio_to_db(self.max, self.max_possible_amplitude)\<close>, which is
  minus infinity for a ratio of zero.
\<close>

datatype dbfs = NegInf | Db real

fun positive_db :: "dbfs \<Rightarrow> bool" where
  "positive_db NegInf = False"
| "positive_db (Db d) = (d > 0)"

definition audioop_max :: "int list \<Rightarrow> int" where
  "audioop_max xs = foldr (\<lambda>x m. max \<bar>x\<bar> m) xs 0"

definition max_possible_amplitude :: "segment \<Rightarrow> real" where
  "max_possible_amplitude seg = 2 ^ (sample_width seg * 8) / 2"

definition ratio_to_db :: "real \<Rightarrow> real \<Rightarrow> dbfs" where
  "ratio_to_db ratio val2 =
     (let r = ratio / val2 in if r = 0 then NegInf else Db (20 * log 10 r))"

definition max_dBFS :: "segment \<Rightarrow> dbfs" where
  "max_dBFS seg = ratio_to_db (real_of_int (audioop_max (samples seg))) (max_possible_amplitude seg)"

text \<open>The first statement of \<^verbatim>\<open>_post_mix\<close> (lines 176 and 177), and the whole of it.\<close>

definition clamp_peak :: "segment \<Rightarrow> segment" where
  "clamp_peak segment =
     (case max_dBFS segment of
        NegInf \<Rightarrow> segment
      | Db d \<Rightarrow> if d > 0 then apply_gain segment (- d) else segment)"

definition post_mix :: "env \<Rightarrow> agent \<Rightarrow> segment \<Rightarrow> error + segment" where
  "post_mix env self segment = normalize_lufs env (clamp_peak segment) (target_lufs self)"

subsection \<open>Loading music and concatenating\<close>

definition load_music ::
  "env \<Rightarrow> string \<Rightarrow> int \<Rightarrow> int \<Rightarrow> event list \<Rightarrow> (error + segment) \<times> event list"
where
  "load_music env path fade_in_ms fade_out_ms evs =
     (if \<not> path_exists env evs path then (Inl MissingAssetError, evs @ [PathExists path])
      else
        (case read_audio_file env (evs @ [PathExists path]) path of
           None \<Rightarrow> (Inl (LibraryError AssetDecodeError), evs @ [PathExists path, ReadFile path])
         | Some segment \<Rightarrow>
             (let segment1 = (if fade_in_ms \<noteq> 0 \<and> fade_in_ms > 0
                              then fade_in env (nat fade_in_ms) segment else segment);
                  segment2 = (if fade_out_ms \<noteq> 0 \<and> fade_out_ms > 0
                              then fade_out env (nat fade_out_ms) segment1 else segment1)
              in (standardize_segment env segment2, evs @ [PathExists path, ReadFile path]))))"

text \<open>
  \<^verbatim>\<open>a + b\<close> on segments is \<^verbatim>\<open>a.append(b, crossfade=0)\<close>: both are brought to the larger
  channel count, frame rate and sample width, and the samples are joined.
\<close>

definition sync_to :: "env \<Rightarrow> nat \<Rightarrow> nat \<Rightarrow> nat \<Rightarrow> segment \<Rightarrow> error + segment" where
  "sync_to env c r w seg =
     (case set_channels env c seg of
        Inl e \<Rightarrow> Inl e
      | Inr seg' \<Rightarrow> Inr (set_sample_width w (set_frame_rate env r seg')))"

definition seg_add :: "env \<Rightarrow> segment \<Rightarrow> segment \<Rightarrow> error + segment" where
  "seg_add env a b =
     (let c = max (channels a) (channels b);
          r = max (frame_rate a) (frame_rate b);
          w = max (sample_width a) (sample_width b) in
      case sync_to env c r w a of
        Inl e \<Rightarrow> Inl e
      | Inr seg1 \<Rightarrow>
          (case sync_to env c r w b of
             Inl e \<Rightarrow> Inl e
           | Inr seg2 \<Rightarrow> Inr (seg1\<lparr>samples := samples seg1 @ samples seg2\<rparr>)))"

definition frame_count :: "segment \<Rightarrow> nat" where
  "frame_count seg = length (samples seg) div channels seg"

definition duration_seconds :: "segment \<Rightarrow> real" where
  "duration_seconds seg =
     (if frame_rate seg \<noteq> 0 then real (frame_count seg) / real (frame_rate seg) else 0)"

definition whole_frames :: "segment \<Rightarrow> bool" where
  "whole_frames seg = (length (samples seg) mod channels seg = 0)"

subsection \<open>The run\<close>

text \<open>Line 197, the composite, and lines 197 and 198 together.\<close>

definition composite_of :: "env \<Rightarrow> segment \<Rightarrow> segment \<Rightarrow> segment \<Rightarrow> error + segment" where
  "composite_of env intro_music speech outro_music =
     (case seg_add env intro_music speech of
        Inl e \<Rightarrow> Inl e
      | Inr s \<Rightarrow> seg_add env s outro_music)"

definition mix :: "env \<Rightarrow> agent \<Rightarrow> segment \<Rightarrow> segment \<Rightarrow> segment \<Rightarrow> error + segment" where
  "mix env self intro_music speech outro_music =
     (case composite_of env intro_music speech outro_music of
        Inl e \<Rightarrow> Inl e
      | Inr composite \<Rightarrow> post_mix env self composite)"

text \<open>Line 186, and lines 187 to 194 for one music asset.\<close>

definition speech_step ::
  "env \<Rightarrow> agent \<Rightarrow> string \<Rightarrow> event list \<Rightarrow> (error + segment) \<times> event list"
where
  "speech_step env self script evs =
     (case synthesize env self script evs of
        (Inl e, evs1) \<Rightarrow> (Inl e, evs1)
      | (Inr s, evs1) \<Rightarrow>
          (normalize_lufs env s (target_lufs self + speech_delta_db self), evs1))"

definition music_step ::
  "env \<Rightarrow> agent \<Rightarrow> string \<Rightarrow> int \<Rightarrow> int \<Rightarrow> event list \<Rightarrow> (error + segment) \<times> event list"
where
  "music_step env self path fade_in_ms fade_out_ms evs =
     (case load_music env path fade_in_ms fade_out_ms evs of
        (Inl e, evs1) \<Rightarrow> (Inl e, evs1)
      | (Inr m, evs1) \<Rightarrow>
          (normalize_lufs env m (target_lufs self + music_delta_db self), evs1))"

text \<open>The body of \<^verbatim>\<open>_run\<close>: one attempt.\<close>

definition run_once ::
  "env \<Rightarrow> agent \<Rightarrow> (string \<rightharpoonup> string) \<Rightarrow> event list \<Rightarrow> (error + string) \<times> event list"
where
  "run_once env self inputs evs =
     (case inputs ''podcast_script'' of
        None \<Rightarrow> (Inl EmptyInputError, evs)
      | Some script \<Rightarrow>
          if script = [] then (Inl EmptyInputError, evs)
          else
            (case speech_step env self script evs of
               (Inl e, evs1) \<Rightarrow> (Inl e, evs1)
             | (Inr speech, evs1) \<Rightarrow>
                 (case music_step env self (intro_path self) 2000 0 evs1 of
                    (Inl e, evs2) \<Rightarrow> (Inl e, evs2)
                  | (Inr intro_music, evs2) \<Rightarrow>
                      (case music_step env self (outro_path self) 0 1500 evs2 of
                         (Inl e, evs3) \<Rightarrow> (Inl e, evs3)
                       | (Inr outro_music, evs3) \<Rightarrow>
                           (case mix env self intro_music speech outro_music of
                              Inl e \<Rightarrow> (Inl e, evs3)
                            | Inr final_audio \<Rightarrow>
                                (if export_mp3 env evs3 (output_path self) final_audio
                                 then (Inr (output_path self),
                                       evs3 @ [Export (output_path self) final_audio])
                                 else (Inl (LibraryError ExportError),
                                       evs3 @ [Export (output_path self) final_audio])))))))"

text \<open>
  \<^verbatim>\<open>@retry(wait=wait_fixed(2), stop=stop_after_attempt(2), reraise=True)\<close>: a failed first
  attempt is followed, two seconds later, by a second one, whose outcome is final.
\<close>

definition run ::
  "env \<Rightarrow> agent \<Rightarrow> (string \<rightharpoonup> string) \<Rightarrow> event list \<Rightarrow> (error + string) \<times> event list"
where
  "run env self inputs evs =
     (case run_once env self inputs evs of
        (Inr result, evs1) \<Rightarrow> (Inr result, evs1)
      | (Inl e, evs1) \<Rightarrow> run_once env self inputs (evs1 @ [Sleep 2]))"

fun is_tts_request :: "event \<Rightarrow> bool" where
  "is_tts_request (TtsRequest r) = True"
| "is_tts_request _ = False"

fun is_http_get :: "event \<Rightarrow> bool" where
  "is_http_get (HttpGet u t) = True"
| "is_http_get _ = False"

subsection \<open>What the payload search finds\<close>

text \<open>
  The value the first loop settles on, and the one the second loop settles on: the value
  of the first key, in the order of the key tuple, whose value is truthy.
\<close>

definition first_inline :: "response \<Rightarrow> pyval option" where
  "first_inline response =
     map_option (field_value response) (find (\<lambda>k. truthy (field_value response k)) encoded_keys)"

definition first_url :: "response \<Rightarrow> pyval option" where
  "first_url response =
     map_option (field_value response) (find (\<lambda>k. truthy (field_value response k)) url_keys)"

section \<open>Example inputs\<close>

text \<open>The agent with the defaults of its dataclass fields.\<close>

definition default_agent :: agent where
  "default_agent =
     \<lparr>output_path = ''blog_to_podcast/output/final_podcast.mp3'',
      intro_path = ''blog_to_podcast/assets/intro.mp3'',
      outro_path = ''blog_to_podcast/assets/outro.mp3'',
      target_lufs = - 14, speech_delta_db = 1, music_delta_db = - 1,
      voice_id = ''en-US-julia'', murf_model = ''GEN2'', http_timeout = 30\<rparr>"

text \<open>
  A base64 table of three entries: \<^verbatim>\<open>"SUQz"\<close> is the three bytes \<^verbatim>\<open>ID3\<close>,
  \<^verbatim>\<open>"===="\<close> decodes to no bytes, anything else (such as \<^verbatim>\<open>"A"\<close>) is rejected.
\<close>

definition example_b64decode :: "pyval \<Rightarrow> bytes option" where
  "example_b64decode v =
     (if v = PStr ''SUQz'' then Some [0x49, 0x44, 0x33]
      else if v = PStr ''===='' then Some []
      else None)"

text \<open>A world in which every service fails, no file exists and conversions change nothing.\<close>

definition offline_env :: env where
  "offline_env =
     \<lparr>tts_generate = (\<lambda>evs request. None),
      http_get = (\<lambda>evs url timeout. None),
      b64decode = example_b64decode,
      decode_mp3 = (\<lambda>b. None),
      path_exists = (\<lambda>evs path. False),
      read_audio_file = (\<lambda>evs path. None),
      export_mp3 = (\<lambda>evs path seg. False),
      ratecv = (\<lambda>w c r r' xs. xs),
      downmix = (\<lambda>c w xs. xs),
      fade_in = (\<lambda>ms seg. seg),
      fade_out = (\<lambda>ms seg. seg),
      integrated_loudness = (\<lambda>rate array. None)\<rparr>"

definition silence_clip :: segment where
  "silence_clip = \<lparr>samples = [0, 0, 0, 0], frame_rate = 44100, channels = 2, sample_width = 2\<rparr>"

text \<open>
  The offline world with a synthesis service that answers \<open>response\<close>, and a decoder that
  reads the bytes \<^verbatim>\<open>ID3\<close>, which stand for a whole MP3 file, as two frames of silence.
\<close>

definition studio_env :: "response \<Rightarrow> env" where
  "studio_env response =
     offline_env\<lparr>tts_generate := (\<lambda>evs request. Some response),
                 decode_mp3 := (\<lambda>b. if b = [0x49, 0x44, 0x33] then Some silence_clip else None)\<rparr>"

definition inline_and_url_response :: response where
  "inline_and_url_response =
     RDict [''encodedAudio'' \<mapsto> PStr ''SUQz'', ''audio_url'' \<mapsto> PStr ''http://unreachable'']"

definition two_inline_response :: "string \<Rightarrow> response" where
  "two_inline_response second =
     RDict [''encoded_audio'' \<mapsto> PStr ''SUQz'', ''encodedAudio'' \<mapsto> PStr second]"

definition empty_inline_response :: response where
  "empty_inline_response =
     RDict [''encodedAudio'' \<mapsto> PStr [], ''audio_url'' \<mapsto> PStr ''http://cdn/a.mp3'']"

definition undecodable_response :: response where
  "undecodable_response =
     RDict [''encodedAudio'' \<mapsto> PStr ''A'', ''url'' \<mapsto> PStr ''http://cdn/a.mp3'']"

definition zero_bytes_response :: response where
  "zero_bytes_response = RDict [''encodedAudio'' \<mapsto> PStr ''====''] "

text \<open>An 8 kHz mono 8-bit clip, and a clip of six channels.\<close>

definition telephone_clip :: segment where
  "telephone_clip = \<lparr>samples = [1, - 2, 3], frame_rate = 8000, channels = 1, sample_width = 1\<rparr>"

definition surround_clip :: segment where
  "surround_clip = \<lparr>samples = [1, 2, 3, 4, 5, 6], frame_rate = 48000, channels = 6, sample_width = 2\<rparr>"

definition hello_inputs :: "string \<rightharpoonup> string" where
  "hello_inputs = [''podcast_script'' \<mapsto> ''Hello'']"

text \<open>
  A world whose loudness meter reads -14 for everything, three standardized clips, and
  their concatenation.
\<close>

definition metered_env :: env where
  "metered_env = offline_env\<lparr>integrated_loudness := (\<lambda>rate array. Some (- 14))\<rparr>"

definition jingle_clip :: segment where
  "jingle_clip = \<lparr>samples = [100, 50], frame_rate = 44100, channels = 2, sample_width = 2\<rparr>"

definition voice_clip :: segment where
  "voice_clip = \<lparr>samples = [3000, - 1000, 2000, 1000], frame_rate = 44100, channels = 2, sample_width = 2\<rparr>"

definition sting_clip :: segment where
  "sting_clip = \<lparr>samples = [50, - 20], frame_rate = 44100, channels = 2, sample_width = 2\<rparr>"

definition episode_clip :: segment where
  "episode_clip = \<lparr>samples = [100, 50, 3000, - 1000, 2000, 1000, 50, - 20],
                   frame_rate = 44100, channels = 2, sample_width = 2\<rparr>"

text \<open>
  A sample list that goes beyond the 8-bit range, as no decoded segment does: the only kind
  of input on which the peak is above full scale.
\<close>

definition hot_clip :: segment where
  "hot_clip = \<lparr>samples = [200, - 40], frame_rate = 44100, channels = 1, sample_width = 1\<rparr>"



section \<open>Properties\<close>

lemmas fixture_defs =
  studio_env_def offline_env_def example_b64decode_def silence_clip_def default_agent_def
  inline_and_url_response_def two_inline_response_def empty_inline_response_def
  undecodable_response_def zero_bytes_response_def

lemmas lookup_defs = field_value_def map_get_def py_or_def encoded_keys_def url_keys_def

lemmas format_defs =
  standardize_segment_def set_channels_def set_sample_width_def set_frame_rate_def

subsection \<open>The two search loops\<close>

lemma find_encoded_first:
  "find_encoded env response keys =
     (case find (\<lambda>k. truthy (field_value response k)) keys of
        None \<Rightarrow> Inr None
      | Some k \<Rightarrow> (case b64decode env (field_value response k) of
                     None \<Rightarrow> Inl PayloadDecodeError
                   | Some b \<Rightarrow> Inr (Some b)))"
  by (induction keys) (simp_all add: Let_def)

lemma find_url_first:
  "find_url env self response keys evs =
     (case find (\<lambda>k. truthy (field_value response k)) keys of
        None \<Rightarrow> (Inr None, evs)
      | Some k \<Rightarrow>
          (case http_get env evs (field_value response k) (http_timeout self) of
             None \<Rightarrow> (Inl DownloadError, evs @ [HttpGet (field_value response k) (http_timeout self)])
           | Some content \<Rightarrow>
               (Inr (Some content), evs @ [HttpGet (field_value response k) (http_timeout self)])))"
  by (induction keys) (simp_all add: Let_def)

lemma find_some_of_list_ex: "list_ex P xs \<Longrightarrow> \<exists>x. find P xs = Some x"
  by (induction xs) auto

lemma extract_audio_bytes_events:
  "snd (extract_audio_bytes env self response evs) = evs \<or>
   (\<exists>u. snd (extract_audio_bytes env self response evs) = evs @ [HttpGet u (http_timeout self)])"
  by (auto simp: extract_audio_bytes_def find_url_first Let_def
           split: sum.splits option.splits prod.splits if_splits)

lemma synthesize_events:
  "\<exists>rest. snd (synthesize env self script evs) = evs @ TtsRequest (tts_request_of self script) # rest"
proof (cases "tts_generate env evs (tts_request_of self script)")
  case None
  then show ?thesis by (simp add: synthesize_def Let_def)
next
  case (Some response)
  let ?evs1 = "evs @ [TtsRequest (tts_request_of self script)]"
  have s: "snd (synthesize env self script evs) = snd (extract_audio_bytes env self response ?evs1)"
    by (simp add: synthesize_def Let_def Some split: prod.splits sum.splits option.splits)
  from extract_audio_bytes_events [of env self response ?evs1] show ?thesis
    unfolding s by auto
qed

lemma standardize_silence_clip: "standardize_segment env silence_clip = Inr silence_clip"
  by (simp add: format_defs silence_clip_def)

subsection \<open>C1: an inline payload wins over a URL\<close>

text \<open>
  C1. When the response has a non-empty value under one of the inline keys, whether or not
  it also has a URL field, the first such value is decoded and is the only source of the
  result: the outcome is the decoding error, the no-payload error for zero bytes, or the
  decoded and standardized audio. The only event of the call is the synthesis request, so
  no HTTP download takes place.
\<close>

theorem inline_payload_wins:
  assumes tts: "tts_generate env evs (tts_request_of self script) = Some response"
      and inline: "list_ex (\<lambda>k. truthy (field_value response k)) encoded_keys"
  shows "\<exists>v. first_inline response = Some v \<and> truthy v \<and>
           synthesize env self script evs =
             ((case b64decode env v of
                 None \<Rightarrow> Inl PayloadDecodeError
               | Some b \<Rightarrow>
                   if b = [] then Inl NoAudioPayloadError
                   else (case decode_mp3 env b of
                           None \<Rightarrow> Inl DecodeError
                         | Some seg \<Rightarrow> standardize_segment env seg)),
              evs @ [TtsRequest (tts_request_of self script)]) \<and>
           \<not> list_ex is_http_get (drop (length evs) (snd (synthesize env self script evs)))"
proof -
  from inline obtain k where k: "find (\<lambda>k. truthy (field_value response k)) encoded_keys = Some k"
    using find_some_of_list_ex by blast
  then have t: "truthy (field_value response k)"
    by (auto simp: find_Some_iff)
  have fi: "first_inline response = Some (field_value response k)"
    by (simp add: first_inline_def k)
  have fe: "find_encoded env response encoded_keys =
              (case b64decode env (field_value response k) of
                 None \<Rightarrow> Inl PayloadDecodeError
               | Some b \<Rightarrow> Inr (Some b))"
    by (simp add: find_encoded_first k)
  have s: "synthesize env self script evs =
             ((case b64decode env (field_value response k) of
                 None \<Rightarrow> Inl PayloadDecodeError
               | Some b \<Rightarrow>
                   if b = [] then Inl NoAudioPayloadError
                   else (case decode_mp3 env b of
                           None \<Rightarrow> Inl DecodeError
                         | Some seg \<Rightarrow> standardize_segment env seg)),
              evs @ [TtsRequest (tts_request_of self script)])"
    by (simp add: synthesize_def Let_def tts extract_audio_bytes_def fe split: option.splits)
  then have "\<not> list_ex is_http_get (drop (length evs) (snd (synthesize env self script evs)))"
    by simp
  with fi t s show ?thesis by blast
qed

text \<open>
  The scenario of the spec: an inline field and a URL that cannot be fetched. The audio is
  returned, and the log holds the synthesis request alone.
\<close>

theorem inline_payload_wins_witness:
  "truthy (field_value inline_and_url_response ''encodedAudio'') \<and>
   truthy (field_value inline_and_url_response ''audio_url'') \<and>
   http_get (studio_env inline_and_url_response) [] (PStr ''http://unreachable'') 30 = None \<and>
   synthesize (studio_env inline_and_url_response) default_agent ''Hello'' [] =
     (Inr silence_clip, [TtsRequest (tts_request_of default_agent ''Hello'')])"
proof -
  let ?env = "studio_env inline_and_url_response"
  have tts: "tts_generate ?env [] (tts_request_of default_agent ''Hello'') = Some inline_and_url_response"
    by (simp add: studio_env_def)
  have v1: "field_value inline_and_url_response ''encodedAudio'' = PStr ''SUQz''"
    by (simp add: field_value_def inline_and_url_response_def map_get_def py_or_def)
  have v2: "field_value inline_and_url_response ''audio_url'' = PStr ''http://unreachable''"
    by (simp add: field_value_def inline_and_url_response_def map_get_def py_or_def)
  have ex: "list_ex (\<lambda>k. truthy (field_value inline_and_url_response k)) encoded_keys"
    by (simp add: encoded_keys_def v1)
  have fi: "first_inline inline_and_url_response = Some (PStr ''SUQz'')"
    by (simp add: first_inline_def lookup_defs inline_and_url_response_def)
  from inline_payload_wins [OF tts ex]
  have "synthesize ?env default_agent ''Hello'' [] =
          ((case b64decode ?env (PStr ''SUQz'') of
              None \<Rightarrow> Inl PayloadDecodeError
            | Some b \<Rightarrow>
                if b = [] then Inl NoAudioPayloadError
                else (case decode_mp3 ?env b of
                        None \<Rightarrow> Inl DecodeError
                      | Some seg \<Rightarrow> standardize_segment ?env seg)),
           [] @ [TtsRequest (tts_request_of default_agent ''Hello'')])"
    by (simp add: fi)
  moreover have "b64decode ?env (PStr ''SUQz'') = Some [0x49, 0x44, 0x33]"
    by (simp add: studio_env_def offline_env_def example_b64decode_def)
  moreover have "decode_mp3 ?env [0x49, 0x44, 0x33] = Some silence_clip"
    by (simp add: studio_env_def)
  moreover have "http_get ?env [] (PStr ''http://unreachable'') 30 = None"
    by (simp add: studio_env_def offline_env_def)
  ultimately show ?thesis
    by (simp add: v1 v2 standardize_silence_clip)
qed

subsection \<open>C2: an inline value that does not decode\<close>

text \<open>
  C2, as amended. When the first inline key with a non-empty value, in the order
  \<^verbatim>\<open>encoded_audio, encodedAudio, encodedAudioBase64, encodedAudio64\<close>, holds a value that
  does not base64-decode, synthesis raises the payload decoding error at once: the log
  holds the synthesis request alone, so neither the URL fields nor the raw bytes are tried.
\<close>

theorem undecodable_first_inline_is_fatal:
  assumes tts: "tts_generate env evs (tts_request_of self script) = Some response"
      and first: "first_inline response = Some v"
      and bad: "b64decode env v = None"
  shows "synthesize env self script evs =
           (Inl PayloadDecodeError, evs @ [TtsRequest (tts_request_of self script)])"
proof -
  from first obtain k where k: "find (\<lambda>k. truthy (field_value response k)) encoded_keys = Some k"
    and v: "v = field_value response k"
    by (auto simp: first_inline_def)
  have "find_encoded env response encoded_keys = Inl PayloadDecodeError"
    using bad by (simp add: find_encoded_first k v)
  then show ?thesis
    by (simp add: synthesize_def Let_def tts extract_audio_bytes_def)
qed

theorem undecodable_first_inline_is_fatal_witness:
  "first_inline undecodable_response = Some (PStr ''A'') \<and>
   first_url undecodable_response = Some (PStr ''http://cdn/a.mp3'') \<and>
   synthesize (studio_env undecodable_response) default_agent ''Hello'' [] =
     (Inl PayloadDecodeError, [TtsRequest (tts_request_of default_agent ''Hello'')])"
proof -
  let ?r = undecodable_response
  have tts: "tts_generate (studio_env ?r) [] (tts_request_of default_agent ''Hello'') = Some ?r"
    by (simp add: studio_env_def)
  have first: "first_inline ?r = Some (PStr ''A'')"
    by (simp add: first_inline_def lookup_defs undecodable_response_def)
  have bad: "b64decode (studio_env ?r) (PStr ''A'') = None"
    by (simp add: studio_env_def offline_env_def example_b64decode_def)
  have "first_url ?r = Some (PStr ''http://cdn/a.mp3'')"
    by (simp add: first_url_def lookup_defs undecodable_response_def)
  with undecodable_first_inline_is_fatal [OF tts first bad] first show ?thesis
    by simp
qed

text \<open>
  The claim as stated speaks of any recognized key. A response with a decodable value
  under \<^verbatim>\<open>encoded_audio\<close> and an undecodable one under \<^verbatim>\<open>encodedAudio\<close> is
  synthesized without error: the loop stops at the first key and never reads the second.
\<close>

theorem undecodable_inline_counterexample:
  "''encodedAudio'' \<in> set encoded_keys \<and>
   truthy (field_value (two_inline_response ''A'') ''encodedAudio'') \<and>
   b64decode (studio_env (two_inline_response ''A''))
      (field_value (two_inline_response ''A'') ''encodedAudio'') = None \<and>
   synthesize (studio_env (two_inline_response ''A'')) default_agent ''Hello'' [] =
     (Inr silence_clip, [TtsRequest (tts_request_of default_agent ''Hello'')])"
  by (simp add: synthesize_def extract_audio_bytes_def Let_def fixture_defs lookup_defs format_defs)

subsection \<open>C10: an inline value that decodes to nothing, and an empty inline value\<close>

text \<open>
  C10, as amended. When the first inline key with a non-empty value holds a value that
  decodes to zero bytes, synthesis raises the no-payload error, and the log holds the
  synthesis request alone: no URL is fetched. When no inline key has a non-empty value
  (each is absent or empty), the search goes on to the URL fields: the first non-empty URL
  value is fetched.
\<close>

theorem empty_inline_decoding_and_fallthrough:
  assumes tts: "tts_generate env evs (tts_request_of self script) = Some response"
  shows "(first_inline response = Some v \<and> b64decode env v = Some [] \<longrightarrow>
            synthesize env self script evs =
              (Inl NoAudioPayloadError, evs @ [TtsRequest (tts_request_of self script)])) \<and>
         (first_inline response = None \<and> first_url response = Some u \<longrightarrow>
            snd (synthesize env self script evs) =
              evs @ [TtsRequest (tts_request_of self script), HttpGet u (http_timeout self)])"
proof (intro conjI impI)
  assume a: "first_inline response = Some v \<and> b64decode env v = Some []"
  then obtain k where k: "find (\<lambda>k. truthy (field_value response k)) encoded_keys = Some k"
    and v: "v = field_value response k"
    by (auto simp: first_inline_def)
  have "find_encoded env response encoded_keys = Inr (Some [])"
    using a by (simp add: find_encoded_first k v)
  then show "synthesize env self script evs =
               (Inl NoAudioPayloadError, evs @ [TtsRequest (tts_request_of self script)])"
    by (simp add: synthesize_def Let_def tts extract_audio_bytes_def)
next
  assume a: "first_inline response = None \<and> first_url response = Some u"
  then have none: "find (\<lambda>k. truthy (field_value response k)) encoded_keys = None"
    by (simp add: first_inline_def)
  from a obtain k where k: "find (\<lambda>k. truthy (field_value response k)) url_keys = Some k"
    and u: "u = field_value response k"
    by (auto simp: first_url_def)
  have fe: "find_encoded env response encoded_keys = Inr None"
    by (simp add: find_encoded_first none)
  show "snd (synthesize env self script evs) =
          evs @ [TtsRequest (tts_request_of self script), HttpGet u (http_timeout self)]"
    by (simp add: synthesize_def Let_def tts extract_audio_bytes_def fe find_url_first k u
             split: option.splits)
qed

theorem empty_inline_decoding_and_fallthrough_witness:
  "first_inline zero_bytes_response = Some (PStr ''===='') \<and>
   synthesize (studio_env zero_bytes_response) default_agent ''Hello'' [] =
     (Inl NoAudioPayloadError, [TtsRequest (tts_request_of default_agent ''Hello'')]) \<and>
   first_inline empty_inline_response = None \<and>
   snd (synthesize (studio_env empty_inline_response) default_agent ''Hello'' []) =
     [TtsRequest (tts_request_of default_agent ''Hello''), HttpGet (PStr ''http://cdn/a.mp3'') 30]"
proof -
  let ?r = zero_bytes_response
  have tts: "tts_generate (studio_env ?r) [] (tts_request_of default_agent ''Hello'') = Some ?r"
    by (simp add: studio_env_def)
  have first: "first_inline ?r = Some (PStr ''===='')"
    by (simp add: first_inline_def lookup_defs zero_bytes_response_def)
  have dec: "b64decode (studio_env ?r) (PStr ''===='') = Some []"
    by (simp add: studio_env_def offline_env_def example_b64decode_def)
  have tts': "tts_generate (studio_env empty_inline_response) [] (tts_request_of default_agent ''Hello'')
                = Some empty_inline_response"
    by (simp add: studio_env_def)
  have none: "first_inline empty_inline_response = None"
    by (simp add: first_inline_def lookup_defs empty_inline_response_def)
  have url: "first_url empty_inline_response = Some (PStr ''http://cdn/a.mp3'')"
    by (simp add: first_url_def lookup_defs empty_inline_response_def)
  have t: "http_timeout default_agent = 30"
    by (simp add: default_agent_def)
  from empty_inline_decoding_and_fallthrough [OF tts, of "PStr ''====''"]
       empty_inline_decoding_and_fallthrough [OF tts', of _ "PStr ''http://cdn/a.mp3''"]
       first dec none url t
  show ?thesis by simp
qed

text \<open>
  The claim as stated speaks of any recognized key. With a decodable value under
  \<^verbatim>\<open>encoded_audio\<close> and a value that decodes to zero bytes under \<^verbatim>\<open>encodedAudio\<close>,
  synthesis returns the audio of the first key and raises nothing.
\<close>

theorem empty_inline_decoding_counterexample:
  "''encodedAudio'' \<in> set encoded_keys \<and>
   truthy (field_value (two_inline_response ''===='') ''encodedAudio'') \<and>
   b64decode (studio_env (two_inline_response ''===='') )
      (field_value (two_inline_response ''===='') ''encodedAudio'') = Some [] \<and>
   synthesize (studio_env (two_inline_response ''===='') ) default_agent ''Hello'' [] =
     (Inr silence_clip, [TtsRequest (tts_request_of default_agent ''Hello'')])"
  by (simp add: synthesize_def extract_audio_bytes_def Let_def fixture_defs lookup_defs format_defs)

subsection \<open>C9: an empty or absent script\<close>

text \<open>
  C9. When \<^verbatim>\<open>podcast_script\<close> is absent from the inputs or is the empty string, an
  attempt raises the empty-input error and logs nothing, and the whole run, retry included,
  raises it having logged only the pause between the attempts: no request reaches the
  synthesis service.
\<close>

theorem empty_script_no_request:
  assumes "inputs ''podcast_script'' = None \<or> inputs ''podcast_script'' = Some []"
  shows "run_once env self inputs evs = (Inl EmptyInputError, evs) \<and>
         run env self inputs evs = (Inl EmptyInputError, evs @ [Sleep 2]) \<and>
         \<not> list_ex is_tts_request (drop (length evs) (snd (run env self inputs evs)))"
proof -
  have once: "\<And>evs. run_once env self inputs evs = (Inl EmptyInputError, evs)"
    using assms by (auto simp: run_once_def)
  then show ?thesis
    by (simp add: run_def)
qed

theorem empty_script_no_request_witness:
  "run offline_env default_agent [''podcast_script'' \<mapsto> []] [] = (Inl EmptyInputError, [Sleep 2]) \<and>
   run offline_env default_agent Map.empty [] = (Inl EmptyInputError, [Sleep 2])"
  using empty_script_no_request [of "[''podcast_script'' \<mapsto> []]" offline_env default_agent "[]"]
        empty_script_no_request [of Map.empty offline_env default_agent "[]"]
  by simp

subsection \<open>C6: silence is left alone\<close>

lemma reshape_rows_all:
  "list_all P xs \<Longrightarrow> list_all (list_all P) (reshape_rows n xs)"
proof (induction n xs rule: reshape_rows.induct)
  case (1 n xs)
  show ?case
  proof (cases "n = 0 \<or> xs = []")
    case True
    then show ?thesis by (simp add: reshape_rows.simps)
  next
    case False
    have t: "list_all P (take n xs)" and d: "list_all P (drop n xs)"
      using "1.prems" by (auto simp: list_all_iff dest: in_set_takeD in_set_dropD)
    from "1.IH" [OF False d] t False show ?thesis
      by (subst reshape_rows.simps) simp
  qed
qed

lemma sum_list_zero: "list_all (\<lambda>x. x = (0::real)) row \<Longrightarrow> sum_list row = 0"
  by (induction row) auto

lemma silent_float_array:
  assumes "whole_frames seg" and "list_all (\<lambda>x. x = 0) (samples seg)"
  shows "\<exists>array. segment_to_float_array seg = Inr array \<and> \<not> np_any array"
proof -
  let ?array = "map real_of_int (samples seg)"
  have z: "list_all (\<lambda>x. x = 0) ?array"
    using assms(2) by (simp add: list_all_iff)
  have rows: "list_all (list_all (\<lambda>x. x = 0)) (reshape_rows (channels seg) ?array)"
    by (rule reshape_rows_all [OF z])
  have mono: "list_all (\<lambda>x. x = 0)
                (map (\<lambda>row. sum_list row / real (channels seg)) (reshape_rows (channels seg) ?array))"
    using rows by (auto simp: list_all_iff sum_list_zero)
  show ?thesis
    using assms(1) z mono
    by (auto simp: segment_to_float_array_def Let_def whole_frames_def np_any_def max_int16_def
                   list_all_iff list_ex_iff)
qed

lemma normalize_silence_clip: "normalize_lufs env silence_clip target = Inr silence_clip"
proof -
  have "whole_frames silence_clip" "list_all (\<lambda>x. x = 0) (samples silence_clip)"
    by (simp_all add: whole_frames_def silence_clip_def)
  from silent_float_array [OF this] show ?thesis
    by (auto simp: normalize_lufs_def)
qed

text \<open>
  C6. For every clip made of whole frames whose samples are all zero, and every target,
  loudness normalization returns the clip itself: the float array has no non-zero entry,
  so the meter is never asked and no gain is applied. An AudioSegment is made of whole
  frames; on a multi-channel sample list that is not, numpy's reshape raises.
\<close>

theorem silence_is_left_alone:
  assumes "whole_frames seg" and "list_all (\<lambda>x. x = 0) (samples seg)"
  shows "normalize_lufs env seg target = Inr seg"
proof -
  from silent_float_array [OF assms] obtain array
    where "segment_to_float_array seg = Inr array" and "\<not> np_any array"
    by blast
  then show ?thesis
    by (simp add: normalize_lufs_def)
qed

text \<open>Two frames of stereo silence, and the clip of no samples at all.\<close>

theorem silence_is_left_alone_witness:
  "whole_frames silence_clip \<and> list_all (\<lambda>x. x = 0) (samples silence_clip) \<and>
   normalize_lufs offline_env silence_clip (- 14) = Inr silence_clip \<and>
   normalize_lufs offline_env (silence_clip\<lparr>samples := []\<rparr>) (- 14) = Inr (silence_clip\<lparr>samples := []\<rparr>)"
proof -
  have a: "whole_frames silence_clip" "list_all (\<lambda>x. x = 0) (samples silence_clip)"
    by (simp_all add: whole_frames_def silence_clip_def)
  have b: "whole_frames (silence_clip\<lparr>samples := []\<rparr>)"
          "list_all (\<lambda>x. x = 0) (samples (silence_clip\<lparr>samples := []\<rparr>))"
    by (simp_all add: whole_frames_def silence_clip_def)
  from silence_is_left_alone [OF a, of offline_env "- 14"]
       silence_is_left_alone [OF b, of offline_env "- 14"] a
  show ?thesis by simp
qed

subsection \<open>C8: standardization is idempotent\<close>

lemma standardize_result:
  "standardize_segment env seg = Inr seg' \<Longrightarrow> is_standard seg' \<and> standardize_segment env seg' = Inr seg'"
  unfolding format_defs is_standard_def
  by (auto split: if_splits)

lemma replicate_two: "replicate 2 x = [x, x]"
  by (simp add: numeral_2_eq_2)

text \<open>
  C8. Standardizing the outcome of standardizing a clip gives that outcome again: a clip
  that was converted has 44100 Hz, 2 channels and a sample width of 2 bytes, and each setter
  returns such a clip unchanged; a clip that pydub cannot convert (more than two channels)
  raises the same exception either way.
\<close>

theorem standardize_idempotent:
  "bind_err (standardize_segment env c) (standardize_segment env) = standardize_segment env c \<and>
   (\<forall>c'. standardize_segment env c = Inr c' \<longrightarrow> is_standard c')"
proof (cases "standardize_segment env c")
  case (Inl e)
  then show ?thesis by (simp add: bind_err_def)
next
  case (Inr c')
  with standardize_result [OF Inr] show ?thesis by (simp add: bind_err_def)
qed

theorem standardize_idempotent_witness:
  "standardize_segment offline_env telephone_clip =
     Inr \<lparr>samples = [256, 256, - 512, - 512, 768, 768], frame_rate = 44100, channels = 2, sample_width = 2\<rparr> \<and>
   standardize_segment offline_env
     \<lparr>samples = [256, 256, - 512, - 512, 768, 768], frame_rate = 44100, channels = 2, sample_width = 2\<rparr> =
     Inr \<lparr>samples = [256, 256, - 512, - 512, 768, 768], frame_rate = 44100, channels = 2, sample_width = 2\<rparr> \<and>
   standardize_segment offline_env surround_clip = Inl (LibraryError ChannelConversionError)"
proof -
  have a: "standardize_segment offline_env telephone_clip =
     Inr \<lparr>samples = [256, 256, - 512, - 512, 768, 768], frame_rate = 44100, channels = 2, sample_width = 2\<rparr>"
    by (simp add: format_defs telephone_clip_def offline_env_def lin2lin_def upmix_def replicate_two)
  have b: "standardize_segment offline_env surround_clip = Inl (LibraryError ChannelConversionError)"
    by (simp add: format_defs surround_clip_def offline_env_def)
  from standardize_idempotent [of offline_env telephone_clip] a b show ?thesis
    by (simp add: bind_err_def)
qed

subsection \<open>C3: a missing intro asset\<close>

lemma speech_step_events:
  "\<exists>rest. snd (speech_step env self script evs) = evs @ TtsRequest (tts_request_of self script) # rest"
  using synthesize_events [of env self script evs]
  by (auto simp: speech_step_def split: prod.splits sum.splits)

lemma music_step_missing:
  "\<not> path_exists env evs path \<Longrightarrow>
   music_step env self path fade_in_ms fade_out_ms evs = (Inl MissingAssetError, evs @ [PathExists path])"
  by (simp add: music_step_def load_music_def)

lemma run_once_missing_intro:
  assumes script: "inputs ''podcast_script'' = Some script" "script \<noteq> []"
      and missing: "\<forall>evs'. \<not> path_exists env evs' (intro_path self)"
  shows "run_once env self inputs evs =
           (case speech_step env self script evs of
              (Inl e, evs1) \<Rightarrow> (Inl e, evs1)
            | (Inr speech, evs1) \<Rightarrow> (Inl MissingAssetError, evs1 @ [PathExists (intro_path self)]))"
  using script missing
  by (simp add: run_once_def music_step_missing split: prod.splits sum.splits)

text \<open>
  C3, as amended. In a run with a non-empty script whose intro asset does not exist, every
  attempt first sends the request to the synthesis service. The attempt raises the
  missing-asset error only when synthesis and the normalization of the speech succeeded,
  after that request; when they fail, their error is raised and the asset is never looked
  at. The run as a whole fails, and its first event is a synthesis request.
\<close>

theorem missing_intro_after_synthesis:
  assumes script: "inputs ''podcast_script'' = Some script" "script \<noteq> []"
      and missing: "\<forall>evs'. \<not> path_exists env evs' (intro_path self)"
  shows "(\<exists>rest. snd (run_once env self inputs evs) =
                   evs @ TtsRequest (tts_request_of self script) # rest) \<and>
         (\<forall>speech evs1. speech_step env self script evs = (Inr speech, evs1) \<longrightarrow>
            run_once env self inputs evs =
              (Inl MissingAssetError, evs1 @ [PathExists (intro_path self)])) \<and>
         (\<forall>e evs1. speech_step env self script evs = (Inl e, evs1) \<longrightarrow>
            run_once env self inputs evs = (Inl e, evs1)) \<and>
         (\<exists>e rest. run env self inputs evs =
                   (Inl e, evs @ TtsRequest (tts_request_of self script) # rest))"
proof -
  note once = run_once_missing_intro [where inputs = inputs and script = script and env = env and self = self, OF script missing]
  have first: "\<exists>e rest. run_once env self inputs evs =
                 (Inl e, evs @ TtsRequest (tts_request_of self script) # rest)" for evs
    using speech_step_events [of env self script evs]
    by (auto simp: once split: prod.splits sum.splits)
  from first [of evs] obtain e rest where
    r1: "run_once env self inputs evs = (Inl e, evs @ TtsRequest (tts_request_of self script) # rest)"
    by blast
  let ?evs2 = "(evs @ TtsRequest (tts_request_of self script) # rest) @ [Sleep 2]"
  from first [of ?evs2] obtain e' rest' where
    r2: "run_once env self inputs ?evs2 = (Inl e', ?evs2 @ TtsRequest (tts_request_of self script) # rest')"
    by blast
  have "run env self inputs evs = (Inl e', ?evs2 @ TtsRequest (tts_request_of self script) # rest')"
    using r2 by (simp add: run_def r1)
  then have "\<exists>e rest. run env self inputs evs =
                   (Inl e, evs @ TtsRequest (tts_request_of self script) # rest)"
    by simp
  moreover have "\<exists>rest. snd (run_once env self inputs evs) =
                   evs @ TtsRequest (tts_request_of self script) # rest"
    using r1 by simp
  ultimately show ?thesis
    by (simp add: once)
qed

lemma speech_step_studio:
  "speech_step (studio_env inline_and_url_response) default_agent ''Hello'' evs =
     (Inr silence_clip, evs @ [TtsRequest (tts_request_of default_agent ''Hello'')])"
proof -
  have "synthesize (studio_env inline_and_url_response) default_agent ''Hello'' evs =
          (Inr silence_clip, evs @ [TtsRequest (tts_request_of default_agent ''Hello'')])"
    by (simp add: synthesize_def extract_audio_bytes_def Let_def fixture_defs lookup_defs format_defs)
  then show ?thesis
    by (simp add: speech_step_def normalize_silence_clip)
qed

theorem missing_intro_after_synthesis_witness:
  "hello_inputs ''podcast_script'' = Some ''Hello'' \<and>
   (\<forall>evs'. \<not> path_exists (studio_env inline_and_url_response) evs' (intro_path default_agent)) \<and>
   run_once (studio_env inline_and_url_response) default_agent hello_inputs [] =
     (Inl MissingAssetError,
      [TtsRequest (tts_request_of default_agent ''Hello''), PathExists (intro_path default_agent)])"
proof -
  let ?env = "studio_env inline_and_url_response"
  have s: "hello_inputs ''podcast_script'' = Some ''Hello''" "''Hello'' \<noteq> []"
    by (simp_all add: hello_inputs_def)
  have m: "\<forall>evs'. \<not> path_exists ?env evs' (intro_path default_agent)"
    by (simp add: studio_env_def offline_env_def)
  from missing_intro_after_synthesis
         [where inputs = hello_inputs and script = "''Hello''" and env = ?env and self = default_agent
            and evs = "[]", OF s m]
       speech_step_studio [of "[]"] s m
  show ?thesis by simp
qed

text \<open>
  The claim as stated has the missing-asset error raised before any call to the synthesis
  service. With the default agent, a service that answers and no intro file, the run raises
  the missing-asset error after two synthesis requests, one per attempt.
\<close>

theorem missing_intro_counterexample:
  "hello_inputs ''podcast_script'' = Some ''Hello'' \<and>
   \<not> path_exists (studio_env inline_and_url_response) [] ''blog_to_podcast/assets/intro.mp3'' \<and>
   intro_path default_agent = ''blog_to_podcast/assets/intro.mp3'' \<and>
   run (studio_env inline_and_url_response) default_agent hello_inputs [] =
     (Inl MissingAssetError,
      [TtsRequest (tts_request_of default_agent ''Hello''),
       PathExists ''blog_to_podcast/assets/intro.mp3'',
       Sleep 2,
       TtsRequest (tts_request_of default_agent ''Hello''),
       PathExists ''blog_to_podcast/assets/intro.mp3''])"
proof -
  let ?env = "studio_env inline_and_url_response"
  have p: "intro_path default_agent = ''blog_to_podcast/assets/intro.mp3''"
    by (simp add: default_agent_def)
  have m: "\<not> path_exists ?env evs ''blog_to_podcast/assets/intro.mp3''" for evs
    by (simp add: studio_env_def offline_env_def)
  have once: "run_once ?env default_agent hello_inputs evs =
          (Inl MissingAssetError,
           evs @ [TtsRequest (tts_request_of default_agent ''Hello''),
                  PathExists ''blog_to_podcast/assets/intro.mp3''])" for evs
    by (simp add: run_once_def hello_inputs_def speech_step_studio music_step_missing p m)
  have "hello_inputs ''podcast_script'' = Some ''Hello''"
    by (simp add: hello_inputs_def)
  then show ?thesis
    by (simp add: run_def once p m)
qed

subsection \<open>C7: the mix is the concatenation\<close>

lemma sync_to_same:
  "channels seg = c \<Longrightarrow> frame_rate seg = r \<Longrightarrow> sample_width seg = w \<Longrightarrow>
   sync_to env c r w seg = Inr seg"
  by (simp add: sync_to_def set_channels_def set_frame_rate_def set_sample_width_def)

lemma seg_add_standard:
  "is_standard a \<Longrightarrow> is_standard b \<Longrightarrow> seg_add env a b = Inr (a\<lparr>samples := samples a @ samples b\<rparr>)"
  by (simp add: seg_add_def is_standard_def sync_to_same)

lemma composite_of_standard:
  assumes "is_standard a" "is_standard b" "is_standard c"
  shows "composite_of env a b c = Inr (a\<lparr>samples := samples a @ samples b @ samples c\<rparr>)"
proof -
  have "is_standard (a\<lparr>samples := samples a @ samples b\<rparr>)"
    using assms(1) by (simp add: is_standard_def)
  then show ?thesis
    using assms by (simp add: composite_of_def seg_add_standard)
qed

lemma apply_gain_shape:
  "frame_rate (apply_gain seg g) = frame_rate seg \<and> channels (apply_gain seg g) = channels seg \<and>
   sample_width (apply_gain seg g) = sample_width seg \<and>
   length (samples (apply_gain seg g)) = length (samples seg)"
  by (simp add: apply_gain_def audioop_mul_def)

lemma normalize_lufs_shape:
  "normalize_lufs env seg target = Inr seg' \<Longrightarrow>
   frame_rate seg' = frame_rate seg \<and> channels seg' = channels seg \<and>
   sample_width seg' = sample_width seg \<and> length (samples seg') = length (samples seg)"
  by (auto simp: normalize_lufs_def apply_gain_shape split: sum.splits if_splits option.splits)

lemma clamp_peak_shape:
  "frame_rate (clamp_peak seg) = frame_rate seg \<and> channels (clamp_peak seg) = channels seg \<and>
   sample_width (clamp_peak seg) = sample_width seg \<and>
   length (samples (clamp_peak seg)) = length (samples seg)"
  by (simp add: clamp_peak_def apply_gain_shape split: dbfs.splits)

lemma post_mix_shape:
  "post_mix env self seg = Inr seg' \<Longrightarrow>
   frame_rate seg' = frame_rate seg \<and> channels seg' = channels seg \<and>
   sample_width seg' = sample_width seg \<and> length (samples seg') = length (samples seg)"
  using normalize_lufs_shape [of env "clamp_peak seg" "target_lufs self" seg'] clamp_peak_shape [of seg]
  by (simp add: post_mix_def)

lemma whole_div_add:
  fixes a b c n :: nat
  assumes "a mod n = 0" "b mod n = 0" "c mod n = 0"
  shows "(a + b + c) div n = a div n + b div n + c div n"
  using assms by (metis div_add mod_0_imp_dvd dvd_add)

text \<open>
  C7. For standardized intro, speech and outro clips made of whole frames, the composite
  is the intro's samples followed by the speech's and then the outro's, in the standard
  format, and its duration is the sum of the three durations. When the final mix succeeds,
  the mixed output is standardized too and has that same frame count and duration: peak
  clamping and loudness normalization change sample values only.
\<close>

theorem mix_is_concatenation:
  assumes std: "is_standard intro_music \<and> is_standard speech \<and> is_standard outro_music"
      and whole: "whole_frames intro_music \<and> whole_frames speech \<and> whole_frames outro_music"
  shows "\<exists>composite.
           composite_of env intro_music speech outro_music = Inr composite \<and>
           samples composite = samples intro_music @ samples speech @ samples outro_music \<and>
           is_standard composite \<and>
           duration_seconds composite =
             duration_seconds intro_music + duration_seconds speech + duration_seconds outro_music \<and>
           (\<forall>final. mix env self intro_music speech outro_music = Inr final \<longrightarrow>
              is_standard final \<and>
              frame_count final =
                frame_count intro_music + frame_count speech + frame_count outro_music \<and>
              duration_seconds final =
                duration_seconds intro_music + duration_seconds speech + duration_seconds outro_music)"
proof -
  let ?composite = "intro_music\<lparr>samples := samples intro_music @ samples speech @ samples outro_music\<rparr>"
  have comp: "composite_of env intro_music speech outro_music = Inr ?composite"
    using std by (simp add: composite_of_standard)
  have cstd: "is_standard ?composite"
    using std by (simp add: is_standard_def)
  have fc: "frame_count ?composite =
              frame_count intro_music + frame_count speech + frame_count outro_music"
    using std whole whole_div_add [of "length (samples intro_music)" 2 "length (samples speech)" "length (samples outro_music)"]
    by (simp add: frame_count_def whole_frames_def is_standard_def)
  have dur: "duration_seconds seg = real (frame_count seg) / 44100" if "is_standard seg" for seg
    using that by (simp add: duration_seconds_def is_standard_def)
  have cdur: "duration_seconds ?composite =
             duration_seconds intro_music + duration_seconds speech + duration_seconds outro_music"
    using std by (simp add: dur [OF cstd] dur fc add_divide_distrib)
  have fin: "is_standard final \<and>
              frame_count final =
                frame_count intro_music + frame_count speech + frame_count outro_music \<and>
              duration_seconds final =
                duration_seconds intro_music + duration_seconds speech + duration_seconds outro_music"
    if m: "mix env self intro_music speech outro_music = Inr final" for final
  proof -
    from m comp have pm: "post_mix env self ?composite = Inr final"
      by (simp add: mix_def)
    note sh = post_mix_shape [OF pm]
    have fstd: "is_standard final"
      using sh cstd by (simp add: is_standard_def)
    have ffc: "frame_count final = frame_count ?composite"
      using sh by (simp add: frame_count_def)
    show ?thesis
      using fstd ffc fc cdur by (simp add: dur [OF fstd] dur [OF cstd])
  qed
  show ?thesis
    using comp cstd cdur fin by (intro exI [of _ ?composite]) simp
qed

lemma clamp_episode: "clamp_peak episode_clip = episode_clip"
  by (simp add: clamp_peak_def max_dBFS_def ratio_to_db_def max_possible_amplitude_def
      audioop_max_def episode_clip_def Let_def)

lemma float_episode: "segment_to_float_array episode_clip = Inr [75 / 32767, 1000 / 32767, 1500 / 32767, 15 / 32767]"
  by (simp add: segment_to_float_array_def episode_clip_def Let_def reshape_rows.simps max_int16_def)

lemma unit_gain_episode: "apply_gain episode_clip 0 = episode_clip"
  by (simp add: apply_gain_def audioop_mul_def db_to_float_def episode_clip_def fbound_def
      minval_def maxval_def)

lemma post_mix_episode: "post_mix metered_env default_agent episode_clip = Inr episode_clip"
proof -
  have "np_any [75 / 32767, 1000 / 32767, 1500 / 32767, 15 / (32767::real)]"
    by (simp add: np_any_def)
  moreover have "integrated_loudness metered_env r a = Some (- 14)" for r a
    by (simp add: metered_env_def)
  moreover have "target_lufs default_agent = - 14"
    by (simp add: default_agent_def)
  ultimately show ?thesis
    by (simp add: post_mix_def clamp_episode normalize_lufs_def float_episode unit_gain_episode)
qed

theorem mix_is_concatenation_witness:
  "is_standard jingle_clip \<and> is_standard voice_clip \<and> is_standard sting_clip \<and>
   whole_frames jingle_clip \<and> whole_frames voice_clip \<and> whole_frames sting_clip \<and>
   mix metered_env default_agent jingle_clip voice_clip sting_clip = Inr episode_clip \<and>
   samples episode_clip = samples jingle_clip @ samples voice_clip @ samples sting_clip \<and>
   frame_count episode_clip = 4 \<and>
   duration_seconds episode_clip =
     duration_seconds jingle_clip + duration_seconds voice_clip + duration_seconds sting_clip"
proof -
  have std: "is_standard jingle_clip \<and> is_standard voice_clip \<and> is_standard sting_clip"
    by (simp add: is_standard_def jingle_clip_def voice_clip_def sting_clip_def)
  have whole: "whole_frames jingle_clip \<and> whole_frames voice_clip \<and> whole_frames sting_clip"
    by (simp add: whole_frames_def jingle_clip_def voice_clip_def sting_clip_def)
  have cat: "jingle_clip\<lparr>samples := samples jingle_clip @ samples voice_clip @ samples sting_clip\<rparr>
               = episode_clip"
    by (simp add: jingle_clip_def voice_clip_def sting_clip_def episode_clip_def)
  from mix_is_concatenation [OF std whole, of metered_env default_agent]
  obtain composite where
    c: "composite_of metered_env jingle_clip voice_clip sting_clip = Inr composite"
    and s: "samples composite = samples jingle_clip @ samples voice_clip @ samples sting_clip"
    and f: "\<forall>final. mix metered_env default_agent jingle_clip voice_clip sting_clip = Inr final \<longrightarrow>
              is_standard final \<and>
              frame_count final =
                frame_count jingle_clip + frame_count voice_clip + frame_count sting_clip \<and>
              duration_seconds final =
                duration_seconds jingle_clip + duration_seconds voice_clip + duration_seconds sting_clip"
    by blast
  have "composite_of metered_env jingle_clip voice_clip sting_clip = Inr episode_clip"
    using std cat by (simp add: composite_of_standard)
  then have m: "mix metered_env default_agent jingle_clip voice_clip sting_clip = Inr episode_clip"
    by (simp add: mix_def post_mix_episode)
  have fc: "frame_count episode_clip = 4"
    by (simp add: frame_count_def episode_clip_def)
  from f m have "duration_seconds episode_clip =
     duration_seconds jingle_clip + duration_seconds voice_clip + duration_seconds sting_clip"
    by blast
  with std whole m fc cat show ?thesis
    by (simp add: jingle_clip_def voice_clip_def sting_clip_def episode_clip_def)
qed

subsection \<open>C5: the peak clamp\<close>

lemma audioop_max_bound:
  "0 \<le> b \<Longrightarrow> list_all (\<lambda>x. \<bar>x\<bar> \<le> b) xs \<Longrightarrow> 0 \<le> audioop_max xs \<and> audioop_max xs \<le> b"
  by (induction xs) (auto simp: audioop_max_def)

lemma fbound_range: "lo \<le> hi \<Longrightarrow> lo \<le> fbound v lo hi \<and> fbound v lo hi \<le> hi"
  unfolding fbound_def
  by (auto simp: le_floor_iff floor_le_iff)

lemma sample_range: "minval w \<le> maxval w"
  by (simp add: minval_def maxval_def)

lemma sample_range_abs: "minval w \<le> x \<Longrightarrow> x \<le> maxval w \<Longrightarrow> \<bar>x\<bar> \<le> 2 ^ (8 * w - 1)"
  by (simp add: minval_def maxval_def abs_le_iff)

lemma max_possible_amplitude_power:
  "0 < sample_width seg \<Longrightarrow> max_possible_amplitude seg = 2 ^ (8 * sample_width seg - 1)"
proof -
  assume "0 < sample_width seg"
  then obtain k where k: "sample_width seg * 8 = Suc k"
    by (cases "sample_width seg * 8") auto
  then have "8 * sample_width seg - 1 = k"
    by (simp add: mult.commute)
  with k show ?thesis
    by (simp add: max_possible_amplitude_def)
qed

lemma in_range_peak:
  assumes w: "0 < sample_width seg"
      and r: "list_all (\<lambda>x. minval (sample_width seg) \<le> x \<and> x \<le> maxval (sample_width seg)) (samples seg)"
  shows "\<not> positive_db (max_dBFS seg)"
proof -
  let ?b = "(2::int) ^ (8 * sample_width seg - 1)"
  have "list_all (\<lambda>x. \<bar>x\<bar> \<le> ?b) (samples seg)"
    using r sample_range_abs [of "sample_width seg"] by (simp add: list_all_iff)
  then have m: "0 \<le> audioop_max (samples seg) \<and> audioop_max (samples seg) \<le> ?b"
    by (intro audioop_max_bound) simp_all
  have mpa: "max_possible_amplitude seg = real_of_int ?b"
    using w by (simp add: max_possible_amplitude_power)
  let ?r = "real_of_int (audioop_max (samples seg)) / max_possible_amplitude seg"
  have r0: "0 \<le> ?r" and r1: "?r \<le> 1"
    using m by (simp_all add: mpa divide_le_eq_1)
  show ?thesis
  proof (cases "?r = 0")
    case True
    then show ?thesis by (simp add: max_dBFS_def ratio_to_db_def Let_def)
  next
    case False
    with r0 have "0 < ?r" by linarith
    with r1 have "log 10 ?r \<le> 0" by simp
    then show ?thesis
      using False by (simp add: max_dBFS_def ratio_to_db_def Let_def mult_le_0_iff not_less)
  qed
qed

lemma apply_gain_in_range:
  "list_all (\<lambda>x. minval (sample_width seg) \<le> x \<and> x \<le> maxval (sample_width seg))
     (samples (apply_gain seg g))"
  by (simp add: apply_gain_def audioop_mul_def list_all_iff fbound_range sample_range)

lemma peak_after_gain: "0 < sample_width seg \<Longrightarrow> \<not> positive_db (max_dBFS (apply_gain seg g))"
  using in_range_peak [of "apply_gain seg g"] apply_gain_in_range [of seg g]
  by (simp add: apply_gain_def)

text \<open>
  C5. For every clip (with a sample width of at least one byte): when the peak is not above
  0 dBFS the clamp returns the clip itself; when it is, the clamp multiplies every sample
  by one and the same factor between 0 and 1 (with the clipping and rounding of
  \<^verbatim>\<open>audioop.mul\<close>); either way the peak of the result is not above 0 dBFS. In
  \<^verbatim>\<open>_post_mix\<close> the clamp comes first and loudness normalization is applied to its result.
\<close>

theorem peak_clamp:
  assumes "0 < sample_width seg"
  shows "(\<not> positive_db (max_dBFS seg) \<longrightarrow> clamp_peak seg = seg) \<and>
         (positive_db (max_dBFS seg) \<longrightarrow>
            (\<exists>factor. 0 < factor \<and> factor < 1 \<and>
               clamp_peak seg =
                 seg\<lparr>samples := audioop_mul (sample_width seg) factor (samples seg)\<rparr>)) \<and>
         \<not> positive_db (max_dBFS (clamp_peak seg)) \<and>
         post_mix env self seg = normalize_lufs env (clamp_peak seg) (target_lufs self)"
proof (cases "max_dBFS seg")
  case NegInf
  then show ?thesis by (simp add: clamp_peak_def post_mix_def)
next
  case (Db d)
  show ?thesis
  proof (cases "d > 0")
    case False
    with Db show ?thesis by (simp add: clamp_peak_def post_mix_def)
  next
    case True
    have c: "clamp_peak seg = apply_gain seg (- d)"
      using Db True by (simp add: clamp_peak_def)
    have f: "0 < db_to_float (- d) \<and> db_to_float (- d) < 1"
      using True by (simp add: db_to_float_def powr_less_one)
    have "\<exists>factor. 0 < factor \<and> factor < 1 \<and>
               clamp_peak seg =
                 seg\<lparr>samples := audioop_mul (sample_width seg) factor (samples seg)\<rparr>"
      using f by (intro exI [of _ "db_to_float (- d)"]) (simp add: c apply_gain_def)
    moreover have "\<not> positive_db (max_dBFS (clamp_peak seg))"
      using assms by (simp add: c peak_after_gain)
    ultimately show ?thesis
      using Db True by (simp add: post_mix_def)
  qed
qed

lemma hot_clip_peak: "positive_db (max_dBFS hot_clip)"
  by (simp add: max_dBFS_def ratio_to_db_def max_possible_amplitude_def audioop_max_def
      hot_clip_def Let_def)

lemma hot_clip_clamped:
  "clamp_peak hot_clip = \<lparr>samples = [127, - 26], frame_rate = 44100, channels = 1, sample_width = 1\<rparr>"
proof -
  have m: "max_dBFS hot_clip = Db (20 * log 10 (25 / 16))"
    by (simp add: max_dBFS_def ratio_to_db_def max_possible_amplitude_def audioop_max_def
        hot_clip_def Let_def)
  have f: "db_to_float (- (20 * log 10 (25 / 16))) = 16 / 25"
    by (simp add: db_to_float_def powr_minus)
  have "clamp_peak hot_clip = apply_gain hot_clip (- (20 * log 10 (25 / 16)))"
    by (simp add: clamp_peak_def m)
  also have "\<dots> = \<lparr>samples = [127, - 26], frame_rate = 44100, channels = 1, sample_width = 1\<rparr>"
    by (simp add: apply_gain_def f audioop_mul_def fbound_def minval_def maxval_def hot_clip_def)
  finally show ?thesis .
qed

theorem peak_clamp_witness:
  "0 < sample_width episode_clip \<and> \<not> positive_db (max_dBFS episode_clip) \<and>
   clamp_peak episode_clip = episode_clip \<and>
   post_mix metered_env default_agent episode_clip =
     normalize_lufs metered_env episode_clip (- 14) \<and>
   0 < sample_width hot_clip \<and> positive_db (max_dBFS hot_clip) \<and>
   clamp_peak hot_clip =
     \<lparr>samples = [127, - 26], frame_rate = 44100, channels = 1, sample_width = 1\<rparr> \<and>
   \<not> positive_db (max_dBFS (clamp_peak hot_clip))"
proof -
  have w: "0 < sample_width episode_clip" "0 < sample_width hot_clip"
    by (simp_all add: episode_clip_def hot_clip_def)
  have cool: "\<not> positive_db (max_dBFS episode_clip)"
    by (simp add: max_dBFS_def ratio_to_db_def max_possible_amplitude_def audioop_max_def
        episode_clip_def Let_def)
  have t: "target_lufs default_agent = - 14"
    by (simp add: default_agent_def)
  from peak_clamp [OF w(1), of metered_env default_agent] peak_clamp [OF w(2), of metered_env default_agent]
       w cool hot_clip_peak hot_clip_clamped t
  show ?thesis by simp
qed

subsection \<open>C4: the float array of the loudness measurement\<close>









end
